theory Spec2Isabelle
  imports Main "HOL-Library.Word"
begin

unbundle bit_operations_syntax

section \<open>Data model of gotrntmessages\<close>

text \<open>
  Go's \<open>byte\<close>, \<open>uint16\<close> and \<open>uint32\<close> are words of that width. The message type is a
  Go \<open>uint\<close>; it is only compared with the constants below, used as a table index and, for
  the values 0 to 3, narrowed to a byte, so it is a \<open>nat\<close>. A Go \<open>string\<close> is a sequence
  of bytes: it is a \<open>string\<close> here, and the conversions between \<open>[]byte\<close> and \<open>string\<close>
  are \<open>string_of_bytes\<close> and \<open>bytes_of_string\<close>, byte for byte.
\<close>

type_synonym byte = "8 word"
type_synonym uint16 = "16 word"
type_synonym uint32 = "32 word"

definition string_of_bytes :: "byte list \<Rightarrow> string" where
  "string_of_bytes bs = map (\<lambda>b. char_of (unat b)) bs"

definition bytes_of_string :: "string \<Rightarrow> byte list" where
  "bytes_of_string s = map (\<lambda>c. of_nat (of_char c)) s"

definition goTrntHeader :: string where
  "goTrntHeader = ''BitTorrent protocol''"

definition goTrntHeaderLen :: byte where
  "goTrntHeaderLen = of_nat (length goTrntHeader)"

definition MsgTypeChoke :: nat where "MsgTypeChoke = 0"
definition MsgTypeUnchoke :: nat where "MsgTypeUnchoke = 1"
definition MsgTypeInterested :: nat where "MsgTypeInterested = 2"
definition MsgTypeNotInterested :: nat where "MsgTypeNotInterested = 3"
definition MsgTypeHave :: nat where "MsgTypeHave = 4"
definition MsgTypeBitfield :: nat where "MsgTypeBitfield = 5"
definition MsgTypeRequest :: nat where "MsgTypeRequest = 6"
definition MsgTypePiece :: nat where "MsgTypePiece = 7"
definition MsgTypeCancel :: nat where "MsgTypeCancel = 8"
definition MsgTypePort :: nat where "MsgTypePort = 9"
definition MsgTypeHandshake :: nat where "MsgTypeHandshake = 10"
definition MsgTypeKeepAlive :: nat where "MsgTypeKeepAlive = 11"
definition MsgTypeInvalid :: nat where "MsgTypeInvalid = 12"

definition MsgTypeNames :: "string list" where
  "MsgTypeNames =
     [''Choke'', ''Unchoke'', ''Interested'', ''NotInterested'', ''Have'', ''Bitfiled'',
      ''Request'', ''Piece'', ''Cancel'', ''Port'', ''Handshake'', ''KeepAlive'',
      ''Invalid'']"

text \<open>
  The interface \<open>MsgData\<close> is implemented by the structs of the package, each of which
  embeds \<open>MsgDataCommon\<close> (and by \<open>MsgDataCommon\<close> itself). A value of the interface is one
  constructor per struct, with the fields in the order of the source; the first field is the
  embedded \<open>MsgType\<close>. The nil interface value is \<open>None\<close> of \<open>MsgData option\<close>.
\<close>

datatype MsgData =
    MsgDataCommon (MsgType: nat)
  | MsgDataChoke (MsgType: nat) (IsChoking: bool)
  | MsgDataInterested (MsgType: nat) (IsInterested: bool)
  | MsgDataHave (MsgType: nat) (PieceIndex: uint32)
  | MsgDataBitfield (MsgType: nat) (Bitfield: "byte list")
  | MsgDataRequestCancel (MsgType: nat) (PieceIndex: uint32) (PieceBytesBegin: uint32)
      (PieceBytesLen: uint32)
  | MsgDataPiece (MsgType: nat) (PieceIndex: uint32) (PieceBytesBegin: uint32)
      (PieceBlock: "byte list")
  | MsgDataHandshake (MsgType: nat) (ProtocolStrLen: int) (ProtocolStr: string)
      (ReservedBytes: string) (InfoHash: string) (PeerId: string)
  | MsgDataPort (MsgType: nat) (PeerPort: uint16)

text \<open>
  A run-time panic of Go is a value: a slice expression out of range, or an index out of
  range.
\<close>

datatype fault = SliceBoundsOutOfRange | IndexOutOfRange

definition bind_fault :: "fault + 'a \<Rightarrow> ('a \<Rightarrow> fault + 'b) \<Rightarrow> fault + 'b" where
  "bind_fault r f = (case r of Inl e \<Rightarrow> Inl e | Inr x \<Rightarrow> f x)"

text \<open>\<open>GetMsgType\<close> of \<open>MsgDataCommon\<close>, promoted to every struct that embeds it.\<close>

definition GetMsgType :: "MsgData \<Rightarrow> fault + (nat \<times> string)" where
  "GetMsgType msgDataCmn =
     (if MsgType msgDataCmn < length MsgTypeNames
      then Inr (MsgType msgDataCmn, MsgTypeNames ! MsgType msgDataCmn)
      else Inl IndexOutOfRange)"

subsection \<open>Slices\<close>

text \<open>
  A Go slice has a length and a capacity. It is the pair of its elements (up to the
  length) and of the elements of its backing array between length and capacity. An index
  expression \<open>buf[i]\<close> needs \<open>i < len(buf)\<close>; a slice expression \<open>buf[a:]\<close> needs
  \<open>a \<le> len(buf)\<close>; \<open>buf[a:b]\<close> needs \<open>a \<le> b \<le> cap(buf)\<close>, so it can reach beyond
  the length into the spare capacity.
\<close>

type_synonym slice = "byte list \<times> byte list"

definition slice_index :: "slice \<Rightarrow> nat \<Rightarrow> fault + byte" where
  "slice_index buf i =
     (if i < length (fst buf) then Inr (fst buf ! i) else Inl IndexOutOfRange)"

definition slice_from :: "slice \<Rightarrow> nat \<Rightarrow> fault + slice" where
  "slice_from buf a =
     (if a \<le> length (fst buf) then Inr (drop a (fst buf), snd buf)
      else Inl SliceBoundsOutOfRange)"

definition slice_range :: "slice \<Rightarrow> nat \<Rightarrow> nat \<Rightarrow> fault + slice" where
  "slice_range buf a b =
     (if a \<le> b \<and> b \<le> length (fst buf) + length (snd buf)
      then Inr (take (b - a) (drop a (fst buf @ snd buf)), drop b (fst buf @ snd buf))
      else Inl SliceBoundsOutOfRange)"

subsection \<open>Byte-order helpers\<close>

definition getBytesFromUint32 :: "uint32 \<Rightarrow> byte list" where
  "getBytesFromUint32 num =
     [ucast (drop_bit 24 num AND 0xff), ucast (drop_bit 16 num AND 0xff),
      ucast (drop_bit 8 num AND 0xff), ucast (num AND 0xff)]"

definition getBytesFromUint16 :: "uint16 \<Rightarrow> byte list" where
  "getBytesFromUint16 num = [ucast (drop_bit 8 num OR 0xff), ucast (num OR 0xff)]"

definition getUint16FromBytes :: "byte list \<Rightarrow> uint16" where
  "getUint16FromBytes buf =
     (if length buf < 2 then 0
      else push_bit 8 (ucast (buf ! 0)) OR ucast (buf ! 1))"

definition getUint32FromBytes :: "byte list \<Rightarrow> uint32" where
  "getUint32FromBytes buf =
     (if length buf < 4 then 0
      else push_bit 24 (ucast (buf ! 0)) OR push_bit 16 (ucast (buf ! 1)) OR
           push_bit 8 (ucast (buf ! 2)) OR ucast (buf ! 3))"

section \<open>Classification\<close>

text \<open>
  \<open>GetMessageType\<close> of gotrntmessages.go: the message id is the byte after the four
  bytes of the length prefix. The guards come before every index, so it cannot panic.
\<close>

definition GetMessageType :: "slice \<Rightarrow> nat \<times> string" where
  "GetMessageType buf =
     (if length (fst buf) > unat goTrntHeaderLen \<and> fst buf ! 0 = goTrntHeaderLen \<and>
         string_of_bytes (take (unat goTrntHeaderLen) (drop 1 (fst buf))) = goTrntHeader
      then (MsgTypeHandshake, MsgTypeNames ! MsgTypeHandshake)
      else if length (fst buf) > 4
      then (let msgType = unat (fst buf ! 4);
                msgType = (if msgType > MsgTypeInvalid then MsgTypeInvalid else msgType)
            in (msgType, MsgTypeNames ! msgType))
      else (MsgTypeInvalid, MsgTypeNames ! MsgTypeInvalid))"

text \<open>
  \<open>GetMessageType\<close> of the other revision of the module (src/unnamed/part\_000): the
  length prefix has been read by the caller and the message id is the first byte.
\<close>

definition GetMessageType_part_000 :: "slice \<Rightarrow> nat \<times> string" where
  "GetMessageType_part_000 buf =
     (let bufLen = length (fst buf) in
      if bufLen \<le> 0 then (MsgTypeInvalid, MsgTypeNames ! MsgTypeInvalid)
      else if bufLen > unat goTrntHeaderLen \<and> fst buf ! 0 = goTrntHeaderLen \<and>
         string_of_bytes (take (unat goTrntHeaderLen) (drop 1 (fst buf))) = goTrntHeader
      then (MsgTypeHandshake, MsgTypeNames ! MsgTypeHandshake)
      else if unat (fst buf ! 0) \<ge> MsgTypeChoke \<and> unat (fst buf ! 0) \<le> MsgTypePort
      then (let msgType = unat (fst buf ! 0);
                msgType = (if msgType > MsgTypeInvalid then MsgTypeInvalid else msgType)
            in (msgType, MsgTypeNames ! msgType))
      else (MsgTypeInvalid, MsgTypeNames ! MsgTypeInvalid))"

section \<open>Decoding\<close>

text \<open>
  The \<open>switch\<close> of \<open>DecodeMessage\<close>, the same in both revisions. The result
  \<open>(None, False)\<close> is \<open>nil, false\<close>.
\<close>

definition DecodeMessage_switch :: "nat \<Rightarrow> slice \<Rightarrow> fault + (MsgData option \<times> bool)" where
  "DecodeMessage_switch msgType buf =
     (if msgType = MsgTypeChoke \<or> msgType = MsgTypeUnchoke
      then Inr (Some (MsgDataChoke msgType (msgType = MsgTypeChoke)), True)
      else if msgType = MsgTypeInterested \<or> msgType = MsgTypeNotInterested
      then Inr (Some (MsgDataInterested msgType (msgType = MsgTypeInterested)), True)
      else if msgType = MsgTypeHave
      then bind_fault (slice_range buf 1 5) (\<lambda>b1.
           Inr (Some (MsgDataHave msgType (getUint32FromBytes (fst b1))), True))
      else if msgType = MsgTypeBitfield
      then bind_fault (slice_from buf 1) (\<lambda>b1.
           Inr (Some (MsgDataBitfield msgType (fst b1)), True))
      else if msgType = MsgTypePiece
      then bind_fault (slice_range buf 1 5) (\<lambda>b1.
           bind_fault (slice_range buf 5 9) (\<lambda>b5.
           bind_fault (slice_from buf 9) (\<lambda>b9.
           Inr (Some (MsgDataPiece msgType (getUint32FromBytes (fst b1))
                        (getUint32FromBytes (fst b5)) (fst b9)), True))))
      else if msgType = MsgTypeRequest \<or> msgType = MsgTypeCancel
      then bind_fault (slice_range buf 1 5) (\<lambda>b1.
           bind_fault (slice_range buf 5 9) (\<lambda>b5.
           bind_fault (slice_range buf 9 13) (\<lambda>b9.
           Inr (Some (MsgDataRequestCancel msgType (getUint32FromBytes (fst b1))
                        (getUint32FromBytes (fst b5)) (getUint32FromBytes (fst b9))),
                True))))
      else if msgType = MsgTypePort
      then bind_fault (slice_range buf 1 3) (\<lambda>b1.
           Inr (Some (MsgDataPort msgType (getUint16FromBytes (fst b1))), True))
      else if msgType = MsgTypeHandshake
      then bind_fault (slice_index buf 0) (\<lambda>b0.
           bind_fault (slice_range buf 1 20) (\<lambda>b1.
           bind_fault (slice_range buf 20 28) (\<lambda>b20.
           bind_fault (slice_range buf 28 48) (\<lambda>b28.
           bind_fault (slice_range buf 48 68) (\<lambda>b48.
           Inr (Some (MsgDataHandshake msgType (uint b0) (string_of_bytes (fst b1))
                        (string_of_bytes (fst b20)) (string_of_bytes (fst b28))
                        (string_of_bytes (fst b48))), True))))))
      else Inr (None, False))"

text \<open>\<open>DecodeMessage\<close> of gotrntmessages.go, which removes the length prefix itself.\<close>

definition DecodeMessage :: "slice \<Rightarrow> fault + (MsgData option \<times> bool)" where
  "DecodeMessage buf =
     (if length (fst buf) \<le> 0 then Inr (None, False)
      else let msgType = fst (GetMessageType buf) in
        bind_fault
          (if msgType \<ge> MsgTypeChoke \<and> msgType \<le> MsgTypePort then slice_from buf 4
           else Inr buf)
          (\<lambda>buf. DecodeMessage_switch msgType buf))"

text \<open>\<open>DecodeMessage\<close> of src/unnamed/part\_000, which is given the buffer without prefix.\<close>

definition DecodeMessage_part_000 :: "slice \<Rightarrow> fault + (MsgData option \<times> bool)" where
  "DecodeMessage_part_000 buf =
     (if length (fst buf) \<le> 0 then Inr (None, False)
      else let msgType = fst (GetMessageType_part_000 buf) in
        DecodeMessage_switch msgType buf)"

section \<open>Encoding\<close>

text \<open>
  \<open>EncodeMessage\<close>, the same in both revisions up to the names of the fields. The
  \<open>bytes.Buffer\<close> is the list of the bytes written so far; every \<open>return\<close> with
  \<open>false\<close> comes before the first write of its branch and returns the empty buffer. The
  length of a bitfield or block is narrowed to \<open>uint32\<close>.
\<close>

definition EncodeMessage :: "nat \<Rightarrow> MsgData option \<Rightarrow> byte list \<times> bool" where
  "EncodeMessage msgType msgData =
     (if msgType = MsgTypeChoke \<or> msgType = MsgTypeUnchoke \<or>
         msgType = MsgTypeInterested \<or> msgType = MsgTypeNotInterested
      then (getBytesFromUint32 1 @ [of_nat msgType], True)
      else case msgData of
        None \<Rightarrow> ([], False)
      | Some m \<Rightarrow>
         (if msgType = MsgTypeHave
          then (case m of
                  MsgDataHave t pieceIndex \<Rightarrow>
                    (getBytesFromUint32 5 @ [4] @ getBytesFromUint32 pieceIndex, True)
                | _ \<Rightarrow> ([], False))
          else if msgType = MsgTypeBitfield
          then (case m of
                  MsgDataBitfield t bitfield \<Rightarrow>
                    (if length bitfield \<le> 0 then ([], False)
                     else (getBytesFromUint32 (of_nat (1 + length bitfield)) @ [5] @
                           bitfield, True))
                | _ \<Rightarrow> ([], False))
          else if msgType = MsgTypeRequest \<or> msgType = MsgTypeCancel
          then (case m of
                  MsgDataRequestCancel t pieceIndex pieceBytesBegin pieceBytesLen \<Rightarrow>
                    (getBytesFromUint32 13 @
                     [if msgType = MsgTypeRequest then 6 else 8] @
                     getBytesFromUint32 pieceIndex @ getBytesFromUint32 pieceBytesBegin @
                     getBytesFromUint32 pieceBytesLen, True)
                | _ \<Rightarrow> ([], False))
          else if msgType = MsgTypePiece
          then (case m of
                  MsgDataPiece t pieceIndex pieceBytesBegin pieceBlock \<Rightarrow>
                    (if length pieceBlock \<le> 0 then ([], False)
                     else (getBytesFromUint32 (of_nat (9 + length pieceBlock)) @ [7] @
                           getBytesFromUint32 pieceIndex @
                           getBytesFromUint32 pieceBytesBegin @ pieceBlock, True))
                | _ \<Rightarrow> ([], False))
          else if msgType = MsgTypePort
          then (case m of
                  MsgDataPort t peerPort \<Rightarrow>
                    (getBytesFromUint32 3 @ [9] @ getBytesFromUint16 peerPort, True)
                | _ \<Rightarrow> ([], False))
          else if msgType = MsgTypeHandshake
          then (case m of
                  MsgDataHandshake t protocolStrLen protocolStr reservedBytes infoHash
                      peerId \<Rightarrow>
                    ([goTrntHeaderLen] @ bytes_of_string goTrntHeader @ replicate 8 0 @
                     bytes_of_string infoHash @ bytes_of_string peerId, True)
                | _ \<Rightarrow> ([], False))
          else if msgType = MsgTypeKeepAlive
          then (getBytesFromUint32 0, True)
          else ([], False)))"

section \<open>Payloads of the round trip\<close>

text \<open>
  The payload records that the round-trip property ranges over: the record has the struct
  type that \<open>EncodeMessage\<close> asserts for the kind, its \<open>MsgType\<close> is the kind, the flag of
  a choke or interest record is the one the kind determines, a bitfield or block is not
  empty, and a handshake record names the protocol and has a 20-byte info hash and peer id.
  \<open>MsgDataCommon\<close> alone is the record of a keep-alive, which has no fields.
\<close>

definition valid_payload :: "nat \<Rightarrow> MsgData \<Rightarrow> bool" where
  "valid_payload K P =
     (case P of
        MsgDataCommon t \<Rightarrow> t = K \<and> K = MsgTypeKeepAlive
      | MsgDataChoke t isChoking \<Rightarrow>
          t = K \<and> (K = MsgTypeChoke \<and> isChoking \<or> K = MsgTypeUnchoke \<and> \<not> isChoking)
      | MsgDataInterested t isInterested \<Rightarrow>
          t = K \<and> (K = MsgTypeInterested \<and> isInterested \<or>
                   K = MsgTypeNotInterested \<and> \<not> isInterested)
      | MsgDataHave t pieceIndex \<Rightarrow> t = K \<and> K = MsgTypeHave
      | MsgDataBitfield t bitfield \<Rightarrow> t = K \<and> K = MsgTypeBitfield \<and> bitfield \<noteq> []
      | MsgDataRequestCancel t pieceIndex pieceBytesBegin pieceBytesLen \<Rightarrow>
          t = K \<and> (K = MsgTypeRequest \<or> K = MsgTypeCancel)
      | MsgDataPiece t pieceIndex pieceBytesBegin pieceBlock \<Rightarrow>
          t = K \<and> K = MsgTypePiece \<and> pieceBlock \<noteq> []
      | MsgDataHandshake t protocolStrLen protocolStr reservedBytes infoHash peerId \<Rightarrow>
          t = K \<and> K = MsgTypeHandshake \<and> protocolStrLen = 19 \<and>
          protocolStr = goTrntHeader \<and> length infoHash = 20 \<and> length peerId = 20
      | MsgDataPort t peerPort \<Rightarrow> t = K \<and> K = MsgTypePort)"

text \<open>The record with the reserved bytes of a handshake replaced by eight zero bytes.\<close>

definition zero_reserved :: "MsgData \<Rightarrow> MsgData" where
  "zero_reserved P =
     (case P of
        MsgDataHandshake t protocolStrLen protocolStr reservedBytes infoHash peerId \<Rightarrow>
          MsgDataHandshake t protocolStrLen protocolStr (string_of_bytes (replicate 8 0))
            infoHash peerId
      | _ \<Rightarrow> P)"

text \<open>
  Whether a record has the struct type that \<open>EncodeMessage\<close> asserts for the kind (the
  kinds 4 to 10; the other kinds assert none).
\<close>

definition struct_of_kind :: "nat \<Rightarrow> MsgData \<Rightarrow> bool" where
  "struct_of_kind K M =
     (case M of
        MsgDataHave t pieceIndex \<Rightarrow> K = MsgTypeHave
      | MsgDataBitfield t bitfield \<Rightarrow> K = MsgTypeBitfield
      | MsgDataRequestCancel t pieceIndex pieceBytesBegin pieceBytesLen \<Rightarrow>
          K = MsgTypeRequest \<or> K = MsgTypeCancel
      | MsgDataPiece t pieceIndex pieceBytesBegin pieceBlock \<Rightarrow> K = MsgTypePiece
      | MsgDataHandshake t protocolStrLen protocolStr reservedBytes infoHash peerId \<Rightarrow>
          K = MsgTypeHandshake
      | MsgDataPort t peerPort \<Rightarrow> K = MsgTypePort
      | _ \<Rightarrow> False)"

section \<open>Auxiliary facts\<close>

lemmas MsgType_defs =
  MsgTypeChoke_def MsgTypeUnchoke_def MsgTypeInterested_def MsgTypeNotInterested_def
  MsgTypeHave_def MsgTypeBitfield_def MsgTypeRequest_def MsgTypePiece_def
  MsgTypeCancel_def MsgTypePort_def MsgTypeHandshake_def MsgTypeKeepAlive_def
  MsgTypeInvalid_def

lemma mask_255: "(255::32 word) = mask 8"
  by (simp add: mask_eq_exp_minus_1)

lemma getUint32FromBytes_getBytesFromUint32:
  "getUint32FromBytes (getBytesFromUint32 n) = n"
  unfolding getUint32FromBytes_def getBytesFromUint32_def
  apply (simp add: mask_255)
  apply (rule bit_word_eqI)
  apply (simp add: bit_simps cong: conj_cong)
  apply arith
  done

lemma getBytesFromUint32_four: "\<exists>a b c d. getBytesFromUint32 n = [a, b, c, d]"
  by (simp add: getBytesFromUint32_def)

lemma getUint32FromBytes_of:
  "getBytesFromUint32 n = [a, b, c, d] \<Longrightarrow> getUint32FromBytes [a, b, c, d] = n"
  using getUint32FromBytes_getBytesFromUint32 [of n] by simp

lemma string_of_bytes_of_string: "string_of_bytes (bytes_of_string s) = s"
  unfolding string_of_bytes_def bytes_of_string_def
  by (simp add: comp_def unat_of_nat)

lemma length_bytes_of_string: "length (bytes_of_string s) = length s"
  by (simp add: bytes_of_string_def)

lemma goTrntHeaderLen_19: "goTrntHeaderLen = 19"
  by (simp add: goTrntHeaderLen_def goTrntHeader_def)

lemma id_byte_not_T: "unat (i::byte) \<le> 9 \<Longrightarrow> char_of (unat i) \<noteq> CHR ''T''"
proof
  assume a: "unat i \<le> 9" and "char_of (unat i) = CHR ''T''"
  then have "(of_char (char_of (unat i)) :: nat) = of_char CHR ''T''" by simp
  then have "unat i mod 256 = 84" by simp
  with a show False by simp
qed

subsection \<open>Classifying and decoding a framed message\<close>

lemma GetMessageType_framed:
  assumes "unat i \<le> 9"
  shows "GetMessageType (l0 # l1 # l2 # l3 # i # rest, spare) =
         (unat i, MsgTypeNames ! unat i)"
  using assms id_byte_not_T [OF assms]
  by (simp add: GetMessageType_def goTrntHeaderLen_19 MsgType_defs string_of_bytes_def
      goTrntHeader_def Let_def)

lemma GetMessageType_part_000_id:
  assumes "unat i \<le> 9"
  shows "GetMessageType_part_000 (i # rest, spare) = (unat i, MsgTypeNames ! unat i)"
proof -
  have "i \<noteq> 19" using assms by auto
  then show ?thesis using assms
    by (simp add: GetMessageType_part_000_def goTrntHeaderLen_19 MsgType_defs Let_def)
qed

lemma DecodeMessage_framed:
  assumes "unat i \<le> 9"
  shows "DecodeMessage (l0 # l1 # l2 # l3 # i # rest, spare) =
         DecodeMessage_switch (unat i) (i # rest, spare)"
  using assms
  by (simp add: DecodeMessage_def GetMessageType_framed MsgType_defs slice_from_def
      bind_fault_def)

lemma DecodeMessage_part_000_id:
  assumes "unat i \<le> 9"
  shows "DecodeMessage_part_000 (i # rest, spare) =
         DecodeMessage_switch (unat i) (i # rest, spare)"
  using assms
  by (simp add: DecodeMessage_part_000_def GetMessageType_part_000_id)

lemma switch_choke:
  "k = 0 \<or> k = 1 \<Longrightarrow>
   DecodeMessage_switch k buf = Inr (Some (MsgDataChoke k (k = 0)), True)"
  by (auto simp add: DecodeMessage_switch_def MsgType_defs)

lemma switch_interested:
  "k = 2 \<or> k = 3 \<Longrightarrow>
   DecodeMessage_switch k buf = Inr (Some (MsgDataInterested k (k = 2)), True)"
  by (auto simp add: DecodeMessage_switch_def MsgType_defs)

lemma switch_have:
  "DecodeMessage_switch 4 (i # a # b # c # d # rest, spare) =
     Inr (Some (MsgDataHave 4 (getUint32FromBytes [a, b, c, d])), True)"
  by (simp add: DecodeMessage_switch_def MsgType_defs slice_range_def bind_fault_def)

lemma switch_bitfield:
  "DecodeMessage_switch 5 (i # rest, spare) = Inr (Some (MsgDataBitfield 5 rest), True)"
  by (simp add: DecodeMessage_switch_def MsgType_defs slice_from_def bind_fault_def)

lemma switch_piece:
  "DecodeMessage_switch 7 (i # a # b # c # d # e # f # g # h # rest, spare) =
     Inr (Some (MsgDataPiece 7 (getUint32FromBytes [a, b, c, d])
                  (getUint32FromBytes [e, f, g, h]) rest), True)"
  by (simp add: DecodeMessage_switch_def MsgType_defs slice_range_def slice_from_def
      bind_fault_def)

lemma switch_request_cancel:
  "k = 6 \<or> k = 8 \<Longrightarrow>
   DecodeMessage_switch k
     (i # a # b # c # d # e # f # g # h # p # q # r # s # rest, spare) =
     Inr (Some (MsgDataRequestCancel k (getUint32FromBytes [a, b, c, d])
                  (getUint32FromBytes [e, f, g, h]) (getUint32FromBytes [p, q, r, s])),
          True)"
  by (auto simp add: DecodeMessage_switch_def MsgType_defs slice_range_def bind_fault_def)

lemma switch_handshake:
  assumes "length H = 19" "length R = 8" "length I = 20" "length P = 20"
  shows "DecodeMessage_switch 10 (x # H @ R @ I @ P, spare) =
     Inr (Some (MsgDataHandshake 10 (uint x) (string_of_bytes H) (string_of_bytes R)
                  (string_of_bytes I) (string_of_bytes P)), True)"
  using assms
  by (simp add: DecodeMessage_switch_def MsgType_defs slice_range_def slice_index_def
      bind_fault_def)

lemma GetMessageType_handshake:
  assumes "length rest > 0"
  shows "GetMessageType (19 # bytes_of_string goTrntHeader @ rest, spare) =
         (10, MsgTypeNames ! 10)"
proof -
  have "length (bytes_of_string goTrntHeader) = 19"
    by (simp add: length_bytes_of_string goTrntHeader_def)
  then show ?thesis using assms
    by (simp add: GetMessageType_def goTrntHeaderLen_19 string_of_bytes_of_string MsgType_defs)
qed

lemma GetMessageType_part_000_handshake:
  assumes "length rest > 0"
  shows "GetMessageType_part_000 (19 # bytes_of_string goTrntHeader @ rest, spare) =
         (10, MsgTypeNames ! 10)"
proof -
  have "length (bytes_of_string goTrntHeader) = 19"
    by (simp add: length_bytes_of_string goTrntHeader_def)
  then show ?thesis using assms
    by (simp add: GetMessageType_part_000_def goTrntHeaderLen_19 string_of_bytes_of_string MsgType_defs)
qed

lemma rt_choke:
  assumes "K = MsgTypeChoke \<or> K = MsgTypeUnchoke"
  shows "\<exists>buf. EncodeMessage K (Some (MsgDataChoke K (K = MsgTypeChoke))) = (buf, True) \<and>
     DecodeMessage (buf, spare) = Inr (Some (MsgDataChoke K (K = MsgTypeChoke)), True) \<and>
     DecodeMessage_part_000 (drop 4 buf, spare) = Inr (Some (MsgDataChoke K (K = MsgTypeChoke)), True)"
  using assms
  by (auto simp add: EncodeMessage_def getBytesFromUint32_def MsgType_defs DecodeMessage_framed
      DecodeMessage_part_000_id switch_choke)

lemma rt_interested:
  assumes "K = MsgTypeInterested \<or> K = MsgTypeNotInterested"
  shows "\<exists>buf. EncodeMessage K (Some (MsgDataInterested K (K = MsgTypeInterested))) = (buf, True) \<and>
     DecodeMessage (buf, spare) = Inr (Some (MsgDataInterested K (K = MsgTypeInterested)), True) \<and>
     DecodeMessage_part_000 (drop 4 buf, spare) = Inr (Some (MsgDataInterested K (K = MsgTypeInterested)), True)"
  using assms
  by (auto simp add: EncodeMessage_def getBytesFromUint32_def MsgType_defs DecodeMessage_framed
      DecodeMessage_part_000_id switch_interested)

lemma rt_have:
  "\<exists>buf. EncodeMessage MsgTypeHave (Some (MsgDataHave MsgTypeHave n)) = (buf, True) \<and>
     DecodeMessage (buf, spare) = Inr (Some (MsgDataHave MsgTypeHave n), True) \<and>
     DecodeMessage_part_000 (drop 4 buf, spare) = Inr (Some (MsgDataHave MsgTypeHave n), True)"
proof -
  obtain a b c d where n: "getBytesFromUint32 n = [a, b, c, d]"
    using getBytesFromUint32_four by blast
  have e: "EncodeMessage MsgTypeHave (Some (MsgDataHave MsgTypeHave n)) =
           ([0, 0, 0, 5, 4, a, b, c, d], True)"
    by (simp add: EncodeMessage_def MsgType_defs n) (simp add: getBytesFromUint32_def)
  show ?thesis unfolding e
    by (simp add: DecodeMessage_framed DecodeMessage_part_000_id switch_have
        getUint32FromBytes_of [OF n] MsgTypeHave_def)
qed

lemma rt_bitfield:
  assumes "bits \<noteq> []"
  shows "\<exists>buf. EncodeMessage MsgTypeBitfield (Some (MsgDataBitfield MsgTypeBitfield bits)) = (buf, True) \<and>
     DecodeMessage (buf, spare) = Inr (Some (MsgDataBitfield MsgTypeBitfield bits), True) \<and>
     DecodeMessage_part_000 (drop 4 buf, spare) = Inr (Some (MsgDataBitfield MsgTypeBitfield bits), True)"
proof -
  obtain a b c d where n: "getBytesFromUint32 (of_nat (1 + length bits)) = [a, b, c, d]"
    using getBytesFromUint32_four by blast
  have e: "EncodeMessage MsgTypeBitfield (Some (MsgDataBitfield MsgTypeBitfield bits)) =
           (a # b # c # d # 5 # bits, True)"
    using assms n by (simp add: EncodeMessage_def MsgType_defs)
  show ?thesis unfolding e
    by (simp add: DecodeMessage_framed DecodeMessage_part_000_id switch_bitfield MsgTypeBitfield_def)
qed

lemma rt_piece:
  assumes "blk \<noteq> []"
  shows "\<exists>buf. EncodeMessage MsgTypePiece (Some (MsgDataPiece MsgTypePiece x y blk)) = (buf, True) \<and>
     DecodeMessage (buf, spare) = Inr (Some (MsgDataPiece MsgTypePiece x y blk), True) \<and>
     DecodeMessage_part_000 (drop 4 buf, spare) = Inr (Some (MsgDataPiece MsgTypePiece x y blk), True)"
proof -
  obtain a b c d where n: "getBytesFromUint32 (of_nat (9 + length blk)) = [a, b, c, d]"
    using getBytesFromUint32_four by blast
  obtain x0 x1 x2 x3 where x: "getBytesFromUint32 x = [x0, x1, x2, x3]"
    using getBytesFromUint32_four by blast
  obtain y0 y1 y2 y3 where y: "getBytesFromUint32 y = [y0, y1, y2, y3]"
    using getBytesFromUint32_four by blast
  have e: "EncodeMessage MsgTypePiece (Some (MsgDataPiece MsgTypePiece x y blk)) =
           (a # b # c # d # 7 # x0 # x1 # x2 # x3 # y0 # y1 # y2 # y3 # blk, True)"
    using assms n by (simp add: EncodeMessage_def MsgType_defs x y)
  show ?thesis unfolding e
    by (simp add: DecodeMessage_framed DecodeMessage_part_000_id switch_piece MsgTypePiece_def
        getUint32FromBytes_of [OF x] getUint32FromBytes_of [OF y])
qed

lemma rt_request_cancel:
  assumes "K = MsgTypeRequest \<or> K = MsgTypeCancel"
  shows "\<exists>buf. EncodeMessage K (Some (MsgDataRequestCancel K x y z)) = (buf, True) \<and>
     DecodeMessage (buf, spare) = Inr (Some (MsgDataRequestCancel K x y z), True) \<and>
     DecodeMessage_part_000 (drop 4 buf, spare) = Inr (Some (MsgDataRequestCancel K x y z), True)"
proof -
  obtain x0 x1 x2 x3 where x: "getBytesFromUint32 x = [x0, x1, x2, x3]"
    using getBytesFromUint32_four by blast
  obtain y0 y1 y2 y3 where y: "getBytesFromUint32 y = [y0, y1, y2, y3]"
    using getBytesFromUint32_four by blast
  obtain z0 z1 z2 z3 where z: "getBytesFromUint32 z = [z0, z1, z2, z3]"
    using getBytesFromUint32_four by blast
  have k: "K = 6 \<or> K = 8" using assms by (simp add: MsgType_defs)
  have thirteen: "getBytesFromUint32 13 = [0, 0, 0, 13]"
    by (simp add: getBytesFromUint32_def)
  have e: "EncodeMessage K (Some (MsgDataRequestCancel K x y z)) =
           ([0, 0, 0, 13, of_nat K, x0, x1, x2, x3, y0, y1, y2, y3, z0, z1, z2, z3], True)"
    using k by (auto simp add: EncodeMessage_def MsgType_defs x y z thirteen)
  have u: "unat (of_nat K :: byte) = K" "unat (of_nat K :: byte) \<le> 9" using k by auto
  show ?thesis unfolding e using k
    by (simp add: DecodeMessage_framed [OF u(2)] DecodeMessage_part_000_id [OF u(2)] u(1)
        switch_request_cancel [OF k]
        getUint32FromBytes_of [OF x] getUint32FromBytes_of [OF y] getUint32FromBytes_of [OF z])
qed

lemma rt_handshake:
  assumes "length ih = 20" "length pid = 20"
  shows "\<exists>buf. EncodeMessage MsgTypeHandshake (Some (MsgDataHandshake MsgTypeHandshake 19 goTrntHeader r ih pid)) = (buf, True) \<and>
     DecodeMessage (buf, spare) = Inr (Some (MsgDataHandshake MsgTypeHandshake 19 goTrntHeader (string_of_bytes (replicate 8 0)) ih pid), True) \<and>
     DecodeMessage_part_000 (buf, spare) = Inr (Some (MsgDataHandshake MsgTypeHandshake 19 goTrntHeader (string_of_bytes (replicate 8 0)) ih pid), True)"
proof -
  let ?rest = "replicate 8 0 @ bytes_of_string ih @ bytes_of_string pid"
  have e: "EncodeMessage MsgTypeHandshake (Some (MsgDataHandshake MsgTypeHandshake 19 goTrntHeader r ih pid)) =
           (19 # bytes_of_string goTrntHeader @ ?rest, True)"
    by (simp add: EncodeMessage_def MsgType_defs goTrntHeaderLen_19)
  have l: "length (bytes_of_string goTrntHeader) = 19"
    by (simp add: length_bytes_of_string goTrntHeader_def)
  have s: "DecodeMessage_switch 10 (19 # bytes_of_string goTrntHeader @ ?rest, spare) =
     Inr (Some (MsgDataHandshake 10 19 goTrntHeader (string_of_bytes (replicate 8 0)) ih pid), True)"
    using switch_handshake [OF l, of "replicate 8 0" "bytes_of_string ih" "bytes_of_string pid" 19 spare] assms
    by (simp add: length_bytes_of_string string_of_bytes_of_string)
  have g: "GetMessageType (19 # bytes_of_string goTrntHeader @ ?rest, spare) = (10, MsgTypeNames ! 10)"
    by (rule GetMessageType_handshake) simp
  have g0: "GetMessageType_part_000 (19 # bytes_of_string goTrntHeader @ ?rest, spare) = (10, MsgTypeNames ! 10)"
    by (rule GetMessageType_part_000_handshake) simp
  show ?thesis unfolding e
    by (simp add: DecodeMessage_def DecodeMessage_part_000_def g g0 s MsgType_defs bind_fault_def)
qed

lemma getBytesFromUint16_ff: "getBytesFromUint16 n = [0xFF, 0xFF]"
proof -
  have "(ucast (x OR 0xff) :: byte) = 0xFF" for x :: uint16
  proof -
    have m: "(0xff :: uint16) = mask 8" "(0xff :: byte) = mask 8"
      by (simp_all add: mask_eq_exp_minus_1)
    show ?thesis unfolding m
      by (rule bit_word_eqI) (simp add: bit_simps)
  qed
  then show ?thesis by (simp add: getBytesFromUint16_def)
qed

lemma GetMessageType_range:
  "fst (GetMessageType buf) \<le> 12 \<and>
   snd (GetMessageType buf) = MsgTypeNames ! fst (GetMessageType buf)"
  by (simp add: GetMessageType_def MsgType_defs Let_def)

lemma GetMessageType_part_000_range:
  "fst (GetMessageType_part_000 buf) \<le> 12 \<and>
   snd (GetMessageType_part_000 buf) = MsgTypeNames ! fst (GetMessageType_part_000 buf)"
  by (simp add: GetMessageType_part_000_def MsgType_defs Let_def)

lemma switch_tag:
  "DecodeMessage_switch k b = Inr (Some m, True) \<Longrightarrow> MsgType m = k"
  by (auto simp add: DecodeMessage_switch_def bind_fault_def
      split: if_splits sum.splits)

lemma GetMsgType_of_range:
  "MsgType m = fst r \<Longrightarrow> fst r \<le> 12 \<Longrightarrow> snd r = MsgTypeNames ! fst r \<Longrightarrow>
   GetMsgType m = Inr r"
  by (cases r) (simp add: GetMsgType_def MsgTypeNames_def)

subsection \<open>Short buffers and id bytes out of range\<close>

text \<open>
  A buffer without spare capacity that is classified as Have, Request, Piece, Cancel or
  Port and is shorter than the fields of the kind makes \<open>DecodeMessage\<close> panic, in
  both revisions.
\<close>

lemma switch_truncated:
  "length rest < 4 \<Longrightarrow> DecodeMessage_switch 4 (i # rest, []) = Inl SliceBoundsOutOfRange"
  "length rest < 12 \<Longrightarrow> DecodeMessage_switch 6 (i # rest, []) = Inl SliceBoundsOutOfRange"
  "length rest < 8 \<Longrightarrow> DecodeMessage_switch 7 (i # rest, []) = Inl SliceBoundsOutOfRange"
  "length rest < 12 \<Longrightarrow> DecodeMessage_switch 8 (i # rest, []) = Inl SliceBoundsOutOfRange"
  "length rest < 2 \<Longrightarrow> DecodeMessage_switch 9 (i # rest, []) = Inl SliceBoundsOutOfRange"
  by (simp_all add: DecodeMessage_switch_def MsgType_defs slice_range_def slice_from_def
      bind_fault_def)


lemma DecodeMessage_truncated:
  "length rest < 4 \<Longrightarrow>
     DecodeMessage (l0 # l1 # l2 # l3 # 4 # rest, []) = Inl SliceBoundsOutOfRange"
  "length rest < 12 \<Longrightarrow>
     DecodeMessage (l0 # l1 # l2 # l3 # 6 # rest, []) = Inl SliceBoundsOutOfRange"
  "length rest < 8 \<Longrightarrow>
     DecodeMessage (l0 # l1 # l2 # l3 # 7 # rest, []) = Inl SliceBoundsOutOfRange"
  "length rest < 12 \<Longrightarrow>
     DecodeMessage (l0 # l1 # l2 # l3 # 8 # rest, []) = Inl SliceBoundsOutOfRange"
  "length rest < 2 \<Longrightarrow>
     DecodeMessage (l0 # l1 # l2 # l3 # 9 # rest, []) = Inl SliceBoundsOutOfRange"
  by (simp_all add: DecodeMessage_framed switch_truncated)

lemma DecodeMessage_part_000_truncated:
  "length rest < 4 \<Longrightarrow> DecodeMessage_part_000 (4 # rest, []) = Inl SliceBoundsOutOfRange"
  "length rest < 12 \<Longrightarrow> DecodeMessage_part_000 (6 # rest, []) = Inl SliceBoundsOutOfRange"
  "length rest < 8 \<Longrightarrow> DecodeMessage_part_000 (7 # rest, []) = Inl SliceBoundsOutOfRange"
  "length rest < 12 \<Longrightarrow> DecodeMessage_part_000 (8 # rest, []) = Inl SliceBoundsOutOfRange"
  "length rest < 2 \<Longrightarrow> DecodeMessage_part_000 (9 # rest, []) = Inl SliceBoundsOutOfRange"
  by (simp_all add: DecodeMessage_part_000_id switch_truncated)

text \<open>
  In gotrntmessages.go an id byte above 11 that does not start a handshake is classified
  as invalid.
\<close>

lemma GetMessageType_id_above_11:
  assumes "length b > 4" "unat (b ! 4) > 11"
    "\<not> (length b > 19 \<and> b ! 0 = 19 \<and>
        string_of_bytes (take 19 (drop 1 b)) = ''BitTorrent protocol'')"
  shows "GetMessageType (b, spare) = (MsgTypeInvalid, ''Invalid'')"
proof -
  have "fst (GetMessageType (b, spare)) = 12"
    using assms
    by (simp add: GetMessageType_def goTrntHeaderLen_19 goTrntHeader_def MsgType_defs Let_def)
  then show ?thesis
    using GetMessageType_range [of "(b, spare)"]
    by (simp add: prod_eq_iff MsgTypeNames_def MsgTypeInvalid_def)
qed

text \<open>
  In src/unnamed/part\_000 an id byte above 9 that does not start a handshake is
  classified as invalid.
\<close>

lemma GetMessageType_part_000_invalid:
  assumes "b \<noteq> []" "unat (b ! 0) > 9"
    "\<not> (length b > 19 \<and> b ! 0 = 19 \<and>
        string_of_bytes (take 19 (drop 1 b)) = ''BitTorrent protocol'')"
  shows "GetMessageType_part_000 (b, spare) = (MsgTypeInvalid, ''Invalid'')"
  using assms
  by (auto simp add: GetMessageType_part_000_def goTrntHeaderLen_19 goTrntHeader_def
      MsgType_defs MsgTypeNames_def Let_def)

section \<open>The round trip\<close>

text \<open>
  C1. Read for every kind other than Invalid, the round trip fails at KeepAlive: its
  encoding is the four bytes of a zero length prefix, which \<open>GetMessageType\<close> classifies as
  invalid (and which is empty once the prefix is removed), so \<open>DecodeMessage\<close> returns
  \<open>nil, false\<close>.
\<close>

theorem C1_keepalive_counterexample:
  "valid_payload MsgTypeKeepAlive (MsgDataCommon MsgTypeKeepAlive) \<and>
   EncodeMessage MsgTypeKeepAlive (Some (MsgDataCommon MsgTypeKeepAlive)) =
     ([0, 0, 0, 0], True) \<and>
   DecodeMessage ([0, 0, 0, 0], []) = Inr (None, False) \<and>
   DecodeMessage_part_000 (drop 4 [0, 0, 0, 0], []) = Inr (None, False)"
  by (simp add: valid_payload_def EncodeMessage_def MsgType_defs getBytesFromUint32_def
      DecodeMessage_def DecodeMessage_part_000_def GetMessageType_def goTrntHeaderLen_19
      bind_fault_def DecodeMessage_switch_def)

text \<open>
  C1, amended. For every kind among Choke, Unchoke, Interested, NotInterested, Have,
  Bitfield, Request, Piece, Cancel and Handshake and every valid payload record of the
  kind, \<open>EncodeMessage\<close> succeeds, and decoding its output succeeds and gives the record
  back, with the reserved bytes of a handshake replaced by eight zero bytes. The output is
  decoded as it is by \<open>DecodeMessage\<close> of gotrntmessages.go, which removes the length
  prefix itself; \<open>DecodeMessage\<close> of src/unnamed/part\_000 is given the output without its
  first four bytes, except for a handshake. This holds whatever the spare capacity of the
  buffer.
\<close>

theorem C1_roundtrip_amended:
  assumes "valid_payload K P" "K \<noteq> MsgTypeKeepAlive" "K \<noteq> MsgTypePort"
  shows "\<exists>buf. EncodeMessage K (Some P) = (buf, True) \<and>
     DecodeMessage (buf, spare) = Inr (Some (zero_reserved P), True) \<and>
     DecodeMessage_part_000 (if K = MsgTypeHandshake then buf else drop 4 buf, spare) =
       Inr (Some (zero_reserved P), True)"
proof (cases P)
  case (MsgDataCommon t)
  with assms show ?thesis by (simp add: valid_payload_def)
next
  case (MsgDataChoke t c)
  with assms have k: "K = MsgTypeChoke \<or> K = MsgTypeUnchoke" and t: "t = K" and c: "c = (K = MsgTypeChoke)"
    by (auto simp add: valid_payload_def MsgType_defs)
  have "K \<noteq> MsgTypeHandshake" using k by (auto simp: MsgType_defs)
  then show ?thesis unfolding MsgDataChoke t c
    using rt_choke [OF k, of spare] by (simp add: zero_reserved_def)
next
  case (MsgDataInterested t c)
  with assms have k: "K = MsgTypeInterested \<or> K = MsgTypeNotInterested" and t: "t = K" and c: "c = (K = MsgTypeInterested)"
    by (auto simp add: valid_payload_def MsgType_defs)
  have "K \<noteq> MsgTypeHandshake" using k by (auto simp: MsgType_defs)
  then show ?thesis unfolding MsgDataInterested t c
    using rt_interested [OF k, of spare] by (simp add: zero_reserved_def)
next
  case (MsgDataHave t n)
  with assms have k: "K = MsgTypeHave" and t: "t = MsgTypeHave"
    by (auto simp add: valid_payload_def)
  show ?thesis unfolding MsgDataHave t k
    using rt_have [of n spare] by (simp add: zero_reserved_def MsgType_defs)
next
  case (MsgDataBitfield t bits)
  with assms have k: "K = MsgTypeBitfield" and t: "t = MsgTypeBitfield" and b: "bits \<noteq> []"
    by (auto simp add: valid_payload_def)
  show ?thesis unfolding MsgDataBitfield t k
    using rt_bitfield [OF b, of spare] by (simp add: zero_reserved_def MsgType_defs)
next
  case (MsgDataRequestCancel t x y z)
  with assms have k: "K = MsgTypeRequest \<or> K = MsgTypeCancel" and t: "t = K"
    by (auto simp add: valid_payload_def)
  have "K \<noteq> MsgTypeHandshake" using k by (auto simp: MsgType_defs)
  then show ?thesis unfolding MsgDataRequestCancel t
    using rt_request_cancel [OF k, of x y z spare] by (simp add: zero_reserved_def)
next
  case (MsgDataPiece t x y blk)
  with assms have k: "K = MsgTypePiece" and t: "t = MsgTypePiece" and b: "blk \<noteq> []"
    by (auto simp add: valid_payload_def)
  show ?thesis unfolding MsgDataPiece t k
    using rt_piece [OF b, of x y spare] by (simp add: zero_reserved_def MsgType_defs)
next
  case (MsgDataHandshake t l p r ih pid)
  with assms have k: "K = MsgTypeHandshake" and t: "t = MsgTypeHandshake" and l: "l = 19"
    and p: "p = goTrntHeader" and len: "length ih = 20" "length pid = 20"
    by (auto simp add: valid_payload_def)
  show ?thesis unfolding MsgDataHandshake t k l p
    using rt_handshake [OF len, of r spare] by (simp add: zero_reserved_def)
next
  case (MsgDataPort t p)
  with assms show ?thesis by (simp add: valid_payload_def)
qed


theorem C1_roundtrip_amended_witness:
  "valid_payload MsgTypePiece (MsgDataPiece MsgTypePiece 1 2 [3, 4]) \<and>
   MsgTypePiece \<noteq> MsgTypeKeepAlive \<and> MsgTypePiece \<noteq> MsgTypePort \<and>
   (\<exists>buf. EncodeMessage MsgTypePiece (Some (MsgDataPiece MsgTypePiece 1 2 [3, 4])) =
            (buf, True) \<and>
          DecodeMessage (buf, []) = Inr (Some (MsgDataPiece MsgTypePiece 1 2 [3, 4]), True) \<and>
          DecodeMessage_part_000 (drop 4 buf, []) =
            Inr (Some (MsgDataPiece MsgTypePiece 1 2 [3, 4]), True))"
  using C1_roundtrip_amended [of MsgTypePiece "MsgDataPiece MsgTypePiece 1 2 [3, 4]" "[]"]
  by (simp add: valid_payload_def zero_reserved_def MsgType_defs)

section \<open>Truncated buffers\<close>

text \<open>
  C2. The buffer 00 00 00 05 04 is classified as Have and has no byte of the piece index.
  \<open>DecodeMessage\<close> evaluates \<open>buf[1:5]\<close> on the one byte left after the prefix: with no
  spare capacity this is a run-time panic and no result is returned; with four bytes of
  spare capacity the slice expression reads them, beyond the length of the buffer, and the
  call succeeds with a piece index made of them. The revision src/unnamed/part\_000 does
  the same on the buffer 04.
\<close>

theorem C2_truncated_have_panics:
  "GetMessageType ([0, 0, 0, 5, 4], []) = (MsgTypeHave, ''Have'') \<and>
   DecodeMessage ([0, 0, 0, 5, 4], []) = Inl SliceBoundsOutOfRange \<and>
   DecodeMessage ([0, 0, 0, 5, 4], [1, 2, 3, 4]) =
     Inr (Some (MsgDataHave MsgTypeHave 0x01020304), True) \<and>
   GetMessageType_part_000 ([4], []) = (MsgTypeHave, ''Have'') \<and>
   DecodeMessage_part_000 ([4], []) = Inl SliceBoundsOutOfRange"
  by (simp add: DecodeMessage_def DecodeMessage_part_000_def GetMessageType_def
      GetMessageType_part_000_def goTrntHeaderLen_19 MsgType_defs MsgTypeNames_def
      bind_fault_def slice_from_def slice_range_def DecodeMessage_switch_def
      getUint32FromBytes_def Let_def)

section \<open>Scenario A: Have with piece index 42\<close>

text \<open>
  C3. In gotrntmessages.go the five bytes 04 00 00 00 2A, the encoding without its length
  prefix, are not decoded as Have: the id is read at offset 4, where the byte is 2A, the
  buffer is classified as invalid and \<open>DecodeMessage\<close> returns \<open>nil, false\<close>.
\<close>

theorem C3_stripped_prefix_counterexample:
  "drop 4 (fst (EncodeMessage MsgTypeHave (Some (MsgDataHave MsgTypeHave 42)))) =
     [0x04, 0x00, 0x00, 0x00, 0x2A] \<and>
   GetMessageType ([0x04, 0x00, 0x00, 0x00, 0x2A], []) = (MsgTypeInvalid, ''Invalid'') \<and>
   DecodeMessage ([0x04, 0x00, 0x00, 0x00, 0x2A], []) = Inr (None, False)"
  by (simp add: EncodeMessage_def getBytesFromUint32_def DecodeMessage_def
      GetMessageType_def goTrntHeaderLen_19 MsgType_defs MsgTypeNames_def
      bind_fault_def DecodeMessage_switch_def Let_def)

text \<open>
  C3, amended. \<open>EncodeMessage\<close> of Have with piece index 42 returns exactly the nine bytes
  00 00 00 05 04 00 00 00 2A. \<open>DecodeMessage\<close> of gotrntmessages.go, applied to these
  nine bytes with the length prefix in place, returns a Have message with piece index 42;
  \<open>DecodeMessage\<close> of src/unnamed/part\_000, applied to the five bytes 04 00 00 00 2A,
  returns the same message.
\<close>

theorem C3_have_42_scenario:
  "EncodeMessage MsgTypeHave (Some (MsgDataHave MsgTypeHave 42)) =
     ([0x00, 0x00, 0x00, 0x05, 0x04, 0x00, 0x00, 0x00, 0x2A], True) \<and>
   DecodeMessage ([0x00, 0x00, 0x00, 0x05, 0x04, 0x00, 0x00, 0x00, 0x2A], spare) =
     Inr (Some (MsgDataHave MsgTypeHave 42), True) \<and>
   DecodeMessage_part_000 ([0x04, 0x00, 0x00, 0x00, 0x2A], spare) =
     Inr (Some (MsgDataHave MsgTypeHave 42), True)"
  by (simp add: EncodeMessage_def getBytesFromUint32_def DecodeMessage_framed
      DecodeMessage_part_000_id switch_have MsgType_defs getUint32FromBytes_def)

section \<open>Scenario B: Port 6881\<close>

text \<open>
  C4. \<open>getBytesFromUint16\<close> combines with \<open>0xff\<close> by OR where \<open>getBytesFromUint32\<close>
  masks by AND, so both bytes of every port are FF: \<open>EncodeMessage\<close> of Port with listen
  port 6881 returns 00 00 00 03 09 FF FF, not 00 00 00 03 09 1A E1, and decoding the
  output gives port 65535.
\<close>

theorem C4_port_6881_encoding:
  "EncodeMessage MsgTypePort (Some (MsgDataPort MsgTypePort 6881)) =
     ([0x00, 0x00, 0x00, 0x03, 0x09, 0xFF, 0xFF], True) \<and>
   DecodeMessage ([0x00, 0x00, 0x00, 0x03, 0x09, 0xFF, 0xFF], []) =
     Inr (Some (MsgDataPort MsgTypePort 65535), True) \<and>
   DecodeMessage_part_000 ([0x09, 0xFF, 0xFF], []) =
     Inr (Some (MsgDataPort MsgTypePort 65535), True)"
  by (simp add: EncodeMessage_def getBytesFromUint32_def getBytesFromUint16_ff
      DecodeMessage_framed DecodeMessage_part_000_id MsgType_defs
      DecodeMessage_switch_def slice_range_def bind_fault_def getUint16FromBytes_def)

section \<open>Classification of id bytes above 9\<close>

text \<open>
  C5. \<open>GetMessageType\<close> of gotrntmessages.go replaces the id byte by Invalid only when it
  is above \<open>MsgTypeInvalid\<close>, that is 12: the buffer 00 00 00 01 0A, which does not start
  with the protocol name, is classified as Handshake, and 00 00 00 01 0B as KeepAlive.
  \<open>DecodeMessage\<close> then takes the first buffer for a handshake and panics on \<open>buf[1:20]\<close>.
\<close>

theorem C5_id_10_classified_handshake:
  "GetMessageType ([0, 0, 0, 1, 10], []) = (MsgTypeHandshake, ''Handshake'') \<and>
   GetMessageType ([0, 0, 0, 1, 11], []) = (MsgTypeKeepAlive, ''KeepAlive'') \<and>
   DecodeMessage ([0, 0, 0, 1, 10], []) = Inl SliceBoundsOutOfRange"
  by (simp add: DecodeMessage_def GetMessageType_def goTrntHeaderLen_19 MsgType_defs
      MsgTypeNames_def bind_fault_def slice_index_def slice_range_def
      DecodeMessage_switch_def Let_def)

section \<open>Classification of a handshake\<close>

text \<open>
  C6. Every buffer of more than 19 bytes whose first byte is 19 and whose bytes 1 to 19
  are the protocol name "BitTorrent protocol" is classified as Handshake by
  \<open>GetMessageType\<close>, in both revisions, whatever follows.
\<close>

theorem C6_handshake_classified:
  assumes "length b > 19" "b ! 0 = 19"
    "take 19 (drop 1 b) = bytes_of_string ''BitTorrent protocol''"
  shows "GetMessageType (b, spare) = (MsgTypeHandshake, ''Handshake'') \<and>
         GetMessageType_part_000 (b, spare) = (MsgTypeHandshake, ''Handshake'')"
proof -
  have "b \<noteq> []" using assms(1) by auto
  then show ?thesis using assms
    by (simp add: GetMessageType_def GetMessageType_part_000_def goTrntHeaderLen_19
        goTrntHeader_def string_of_bytes_of_string MsgType_defs MsgTypeNames_def)
qed

theorem C6_handshake_classified_witness:
  "length (19 # bytes_of_string ''BitTorrent protocol'' @ [1, 2, 3]) > 19 \<and>
   (19 # bytes_of_string ''BitTorrent protocol'' @ [1, 2, 3]) ! 0 = 19 \<and>
   take 19 (drop 1 (19 # bytes_of_string ''BitTorrent protocol'' @ [1, 2, 3])) =
     bytes_of_string ''BitTorrent protocol'' \<and>
   GetMessageType (19 # bytes_of_string ''BitTorrent protocol'' @ [1, 2, 3], []) =
     (MsgTypeHandshake, ''Handshake'') \<and>
   GetMessageType_part_000 (19 # bytes_of_string ''BitTorrent protocol'' @ [1, 2, 3], []) =
     (MsgTypeHandshake, ''Handshake'')"
  using C6_handshake_classified
    [of "19 # bytes_of_string ''BitTorrent protocol'' @ [1, 2, 3]" "[]"]
  by (simp add: length_bytes_of_string)

section \<open>Payloads that do not match the kind\<close>

text \<open>
  C7. \<open>EncodeMessage\<close> does not compare the payload with the kind for Choke, Unchoke,
  Interested and NotInterested, which return before the payload is looked at, and it never
  reads the \<open>MsgType\<close> field of the payload: a Have record is accepted for Choke, and a
  record tagged Cancel is encoded as Request.
\<close>

theorem C7_mismatch_accepted_counterexample:
  "EncodeMessage MsgTypeChoke (Some (MsgDataHave MsgTypeHave 42)) =
     ([0, 0, 0, 1, 0], True) \<and>
   EncodeMessage MsgTypeRequest (Some (MsgDataRequestCancel MsgTypeCancel 1 2 3)) =
     ([0, 0, 0, 13, 6, 0, 0, 0, 1, 0, 0, 0, 2, 0, 0, 0, 3], True)"
  by (simp add: EncodeMessage_def getBytesFromUint32_def MsgType_defs)

text \<open>
  C7, amended. For every kind among Have, Bitfield, Request, Piece, Cancel, Port and
  Handshake and every payload whose struct type is not the one of the kind,
  \<open>EncodeMessage\<close> fails: it returns \<open>false\<close> and no bytes.
\<close>

theorem C7_wrong_struct_rejected:
  assumes "K \<in> {MsgTypeHave, MsgTypeBitfield, MsgTypeRequest, MsgTypePiece,
                 MsgTypeCancel, MsgTypePort, MsgTypeHandshake}"
    and "\<not> struct_of_kind K M"
  shows "EncodeMessage K (Some M) = ([], False)"
  using assms
  by (cases M) (auto simp add: EncodeMessage_def struct_of_kind_def MsgType_defs)

theorem C7_wrong_struct_rejected_witness:
  "MsgTypeHave \<in> {MsgTypeHave, MsgTypeBitfield, MsgTypeRequest, MsgTypePiece,
                 MsgTypeCancel, MsgTypePort, MsgTypeHandshake} \<and>
   \<not> struct_of_kind MsgTypeHave (MsgDataPort MsgTypePort 6881) \<and>
   EncodeMessage MsgTypeHave (Some (MsgDataPort MsgTypePort 6881)) = ([], False)"
  using C7_wrong_struct_rejected [of MsgTypeHave "MsgDataPort MsgTypePort 6881"]
  by (simp add: struct_of_kind_def MsgType_defs)

section \<open>No bytes on failure\<close>

text \<open>
  C8. Whenever \<open>EncodeMessage\<close> returns \<open>false\<close>, the byte sequence it returns is empty.
\<close>

theorem C8_no_bytes_on_failure:
  assumes "\<not> snd (EncodeMessage K M)"
  shows "fst (EncodeMessage K M) = []"
proof -
  have "snd (EncodeMessage K M) \<or> fst (EncodeMessage K M) = []"
  proof (cases M)
    case None
    then show ?thesis by (simp add: EncodeMessage_def)
  next
    case (Some m)
    then show ?thesis by (cases m) (simp_all add: EncodeMessage_def)
  qed
  with assms show ?thesis by blast
qed

theorem C8_no_bytes_on_failure_witness:
  "\<not> snd (EncodeMessage MsgTypeBitfield (Some (MsgDataBitfield MsgTypeBitfield []))) \<and>
   fst (EncodeMessage MsgTypeBitfield (Some (MsgDataBitfield MsgTypeBitfield []))) = []"
  using C8_no_bytes_on_failure
    [of MsgTypeBitfield "Some (MsgDataBitfield MsgTypeBitfield [])"]
  by (simp add: EncodeMessage_def MsgType_defs)

section \<open>The tag of a decoded message\<close>

text \<open>
  C9. For every buffer on which \<open>DecodeMessage\<close> succeeds, \<open>GetMsgType\<close> of the returned
  message returns the kind and name that \<open>GetMessageType\<close> returns for the buffer, in both
  revisions.
\<close>

theorem C9_decoded_tag_is_classified_kind:
  "(DecodeMessage buf = Inr (Some m, True) \<longrightarrow> GetMsgType m = Inr (GetMessageType buf)) \<and>
   (DecodeMessage_part_000 buf' = Inr (Some m', True) \<longrightarrow>
      GetMsgType m' = Inr (GetMessageType_part_000 buf'))"
proof (intro conjI impI)
  assume d: "DecodeMessage buf = Inr (Some m, True)"
  then obtain b where "DecodeMessage_switch (fst (GetMessageType buf)) b = Inr (Some m, True)"
    by (auto simp add: DecodeMessage_def bind_fault_def Let_def
        split: if_splits sum.splits)
  then have "MsgType m = fst (GetMessageType buf)" by (rule switch_tag)
  then show "GetMsgType m = Inr (GetMessageType buf)"
    using GetMessageType_range [of buf] by (simp add: GetMsgType_of_range)
next
  assume d: "DecodeMessage_part_000 buf' = Inr (Some m', True)"
  then have "DecodeMessage_switch (fst (GetMessageType_part_000 buf')) buf' =
             Inr (Some m', True)"
    by (auto simp add: DecodeMessage_part_000_def Let_def split: if_splits)
  then have "MsgType m' = fst (GetMessageType_part_000 buf')" by (rule switch_tag)
  then show "GetMsgType m' = Inr (GetMessageType_part_000 buf')"
    using GetMessageType_part_000_range [of buf'] by (simp add: GetMsgType_of_range)
qed

theorem C9_decoded_tag_is_classified_kind_witness:
  "DecodeMessage ([0, 0, 0, 5, 4, 0, 0, 0, 42], []) =
     Inr (Some (MsgDataHave MsgTypeHave 42), True) \<and>
   GetMsgType (MsgDataHave MsgTypeHave 42) =
     Inr (GetMessageType ([0, 0, 0, 5, 4, 0, 0, 0, 42], [])) \<and>
   DecodeMessage_part_000 ([4, 0, 0, 0, 42], []) =
     Inr (Some (MsgDataHave MsgTypeHave 42), True) \<and>
   GetMsgType (MsgDataHave MsgTypeHave 42) =
     Inr (GetMessageType_part_000 ([4, 0, 0, 0, 42], []))"
proof -
  have d: "DecodeMessage ([0, 0, 0, 5, 4, 0, 0, 0, 42], []) =
             Inr (Some (MsgDataHave MsgTypeHave 42), True)"
    by (simp add: DecodeMessage_framed switch_have MsgType_defs getUint32FromBytes_def)
  have d': "DecodeMessage_part_000 ([4, 0, 0, 0, 42], []) =
             Inr (Some (MsgDataHave MsgTypeHave 42), True)"
    by (simp add: DecodeMessage_part_000_id switch_have MsgType_defs getUint32FromBytes_def)
  show ?thesis
    using C9_decoded_tag_is_classified_kind
      [of "([0, 0, 0, 5, 4, 0, 0, 0, 42], [])" "MsgDataHave MsgTypeHave 42"
          "([4, 0, 0, 0, 42], [])" "MsgDataHave MsgTypeHave 42"] d d'
    by blast
qed

section \<open>Choke, Unchoke, Interested and NotInterested\<close>

text \<open>
  C10. For the kinds Choke, Unchoke, Interested and NotInterested, \<open>EncodeMessage\<close>
  succeeds with the five bytes 00 00 00 01 and the id of the kind, for every payload and
  for the nil payload.
\<close>

theorem C10_choke_family_ignores_payload:
  assumes "K \<in> {MsgTypeChoke, MsgTypeUnchoke, MsgTypeInterested, MsgTypeNotInterested}"
  shows "EncodeMessage K msgData = ([0, 0, 0, 1, of_nat K], True)"
  using assms
  by (auto simp add: EncodeMessage_def getBytesFromUint32_def MsgType_defs)

theorem C10_choke_family_ignores_payload_witness:
  "MsgTypeUnchoke \<in> {MsgTypeChoke, MsgTypeUnchoke, MsgTypeInterested,
                     MsgTypeNotInterested} \<and>
   EncodeMessage MsgTypeUnchoke None = ([0, 0, 0, 1, 1], True)"
  using C10_choke_family_ignores_payload [of MsgTypeUnchoke None]
  by (simp add: MsgType_defs)

end
